theory Spec2Isabelle
  imports Main "HOL-Library.Sublist" "HOL-Library.AList"
begin

section \<open>Python strings\<close>

text \<open>
  A Python \<^verbatim>\<open>str\<close> is a sequence of Unicode code points, so a string is a list of
  natural numbers. ASCII literals are written \<open>u ''...''\<close>; other characters by their code
  point (\<open>[0x915]\<close> is the Devanagari letter KA). Substring containment \<^verbatim>\<open>a in b\<close> is
  \<^const>\<open>sublist\<close>, slicing \<^verbatim>\<open>s[:n]\<close> is \<^const>\<open>take\<close>.
\<close>

type_synonym ustring = "nat list"

definition u :: "string \<Rightarrow> ustring" where
  "u s = map of_char s"

text \<open>Exceptions that the modelled code can meet; \<^verbatim>\<open>except Exception\<close> catches each.\<close>

datatype py_error = ConversionError | DetectError | IndexError

text \<open>\<^verbatim>\<open>str.isspace\<close> on one character: the code points at which \<^verbatim>\<open>str.split()\<close> splits.\<close>

definition py_isspace :: "nat \<Rightarrow> bool" where
  "py_isspace c =
     ((0x9 \<le> c \<and> c \<le> 0xD) \<or> (0x1C \<le> c \<and> c \<le> 0x20) \<or> c = 0x85 \<or> c = 0xA0 \<or> c = 0x1680
      \<or> (0x2000 \<le> c \<and> c \<le> 0x200A) \<or> c = 0x2028 \<or> c = 0x2029 \<or> c = 0x202F \<or> c = 0x205F
      \<or> c = 0x3000)"

text \<open>\<^verbatim>\<open>s.split()\<close>: the maximal runs of non-whitespace characters; \<open>w\<close> is the run being read.\<close>

fun split_from :: "ustring \<Rightarrow> ustring \<Rightarrow> ustring list" where
  "split_from w [] = (if w = [] then [] else [w])"
| "split_from w (c # cs) =
     (if py_isspace c then (if w = [] then split_from [] cs else w # split_from [] cs)
      else split_from (w @ [c]) cs)"

definition py_split :: "ustring \<Rightarrow> ustring list" where
  "py_split s = split_from [] s"

text \<open>\<^verbatim>\<open>sep.join(words)\<close>.\<close>

fun py_join :: "ustring \<Rightarrow> ustring list \<Rightarrow> ustring" where
  "py_join sep [] = []"
| "py_join sep [w] = w"
| "py_join sep (w # v # ws) = w @ sep @ py_join sep (v # ws)"

text \<open>
  \<^verbatim>\<open>s.replace(old, new)\<close>: the non-overlapping occurrences of \<open>old\<close>, found from the left,
  become \<open>new\<close>; an empty \<open>old\<close> matches before every character and at the end.
\<close>

function replace_nonempty :: "ustring \<Rightarrow> ustring \<Rightarrow> ustring \<Rightarrow> ustring" where
  "replace_nonempty old new [] = []"
| "replace_nonempty old new (c # cs) =
     (if old \<noteq> [] \<and> prefix old (c # cs)
      then new @ replace_nonempty old new (drop (length old) (c # cs))
      else c # replace_nonempty old new cs)"
  by pat_completeness auto
termination
  by (relation "measure (\<lambda>(old, new, s). length s)") auto

definition py_replace :: "ustring \<Rightarrow> ustring \<Rightarrow> ustring \<Rightarrow> ustring" where
  "py_replace s old new =
     (if old = [] then new @ concat (map (\<lambda>c. c # new) s) else replace_nonempty old new s)"

definition is_AZ :: "nat \<Rightarrow> bool" where
  "is_AZ c = (0x41 \<le> c \<and> c \<le> 0x5A)"

definition is_az :: "nat \<Rightarrow> bool" where
  "is_az c = (0x61 \<le> c \<and> c \<le> 0x7A)"

definition is_09 :: "nat \<Rightarrow> bool" where
  "is_09 c = (0x30 \<le> c \<and> c \<le> 0x39)"

text \<open>
  The methods of \<^verbatim>\<open>str\<close> whose result is read from the interpreter's Unicode character
  database are parameters of the model: \<^verbatim>\<open>lower\<close>, \<^verbatim>\<open>isupper\<close>, \<^verbatim>\<open>islower\<close>,
  \<^verbatim>\<open>isalpha\<close>, \<^verbatim>\<open>title\<close>, and the alphanumeric property of a non-ASCII code point
  (which decides \<^verbatim>\<open>\w\<close> and \<^verbatim>\<open>\b\<close> of \<^verbatim>\<open>re\<close>). A theorem stated for every \<open>U\<close>
  holds whatever that database says.
\<close>

record py_unicode =
  py_lower :: "ustring \<Rightarrow> ustring"
  py_isupper :: "ustring \<Rightarrow> bool"
  py_islower :: "ustring \<Rightarrow> bool"
  py_isalpha :: "ustring \<Rightarrow> bool"
  py_title :: "ustring \<Rightarrow> ustring"
  py_isalnum_cp :: "nat \<Rightarrow> bool"

text \<open>\<^verbatim>\<open>\w\<close> of a \<^verbatim>\<open>str\<close> pattern: alphanumeric or underscore.\<close>

definition re_word :: "py_unicode \<Rightarrow> nat \<Rightarrow> bool" where
  "re_word U c =
     (if c < 0x80 then is_AZ c \<or> is_az c \<or> is_09 c \<or> c = 0x5F else py_isalnum_cp U c)"

subsection \<open>The database on ASCII and Devanagari text\<close>

text \<open>
  What CPython computes on text made of ASCII characters and characters of the Devanagari
  block (U+0900 to U+097F, which has no cased character). It is the instance at which the
  model is evaluated on concrete inputs. Any other character is treated as uncased and
  not alphanumeric, and left alone by \<^verbatim>\<open>lower\<close> and \<^verbatim>\<open>title\<close>; that is what
  CPython does for the lower-case letters with diacritics of the tables below under
  \<^verbatim>\<open>lower\<close>, the only method the code applies to them.
\<close>

definition ascii_lower_cp :: "nat \<Rightarrow> nat" where
  "ascii_lower_cp c = (if is_AZ c then c + 32 else c)"

definition ascii_upper_cp :: "nat \<Rightarrow> nat" where
  "ascii_upper_cp c = (if is_az c then c - 32 else c)"

definition devanagari_alpha :: "nat \<Rightarrow> bool" where
  "devanagari_alpha c =
     ((0x904 \<le> c \<and> c \<le> 0x939) \<or> c = 0x93D \<or> c = 0x950 \<or> (0x958 \<le> c \<and> c \<le> 0x961)
      \<or> (0x971 \<le> c \<and> c \<le> 0x97F))"

definition devanagari_digit :: "nat \<Rightarrow> bool" where
  "devanagari_digit c = (0x966 \<le> c \<and> c \<le> 0x96F)"

definition basic_isupper :: "ustring \<Rightarrow> bool" where
  "basic_isupper s = (list_ex is_AZ s \<and> \<not> list_ex is_az s)"

definition basic_islower :: "ustring \<Rightarrow> bool" where
  "basic_islower s = (list_ex is_az s \<and> \<not> list_ex is_AZ s)"

definition basic_isalpha :: "ustring \<Rightarrow> bool" where
  "basic_isalpha s = (s \<noteq> [] \<and> list_all (\<lambda>c. is_AZ c \<or> is_az c \<or> devanagari_alpha c) s)"

text \<open>\<^verbatim>\<open>str.title\<close>: a cased character is upper-cased after an uncased one (or at the
  start) and lower-cased after a cased one; \<open>prev\<close> tells whether the last one was cased.\<close>

fun basic_title_from :: "bool \<Rightarrow> ustring \<Rightarrow> ustring" where
  "basic_title_from prev [] = []"
| "basic_title_from prev (c # cs) =
     (if is_AZ c \<or> is_az c
      then (if prev then ascii_lower_cp c else ascii_upper_cp c) # basic_title_from True cs
      else c # basic_title_from False cs)"

definition basic_unicode :: py_unicode where
  "basic_unicode =
     \<lparr>py_lower = map ascii_lower_cp, py_isupper = basic_isupper, py_islower = basic_islower,
      py_isalpha = basic_isalpha, py_title = basic_title_from False,
      py_isalnum_cp = (\<lambda>c. devanagari_alpha c \<or> devanagari_digit c)\<rparr>"

section \<open>formatters.py: TransliterationFormatter\<close>

text \<open>The tables of \<^verbatim>\<open>__init__\<close>, as association lists in insertion order (the order in
  which \<^verbatim>\<open>.items()\<close> iterates).\<close>

definition character_replacements :: "(ustring \<times> ustring) list" where
  "character_replacements =
     [([0xF2], u ''o''), ([0x1E3B], u ''l''), ([0x1E45], u ''ng''), ([0x1E47], u ''n''),
      ([0x1E6D], u ''t''), ([0x1E0D], u ''d''), ([0x1E63], u ''sh''), ([0x1E43], u ''m''),
      ([0x1E25], u ''h''), ([0x1E41], u ''m''),
      ([0x1E37], u ''l''), ([0x1E5B], u ''r''), ([0x1E5D], u ''r''),
      (u ''I'', u ''i''), (u ''A'', u ''a''), (u ''U'', u ''u''), (u ''E'', u ''e''),
      (u ''O'', u ''o'')]"

definition vowel_length_mappings :: "(ustring \<times> ustring) list" where
  "vowel_length_mappings =
     [([0x12B], u ''ee''), ([0x101], u ''aa''), ([0x16B], u ''uu''), ([0x113], u ''ee''),
      ([0x14D], u ''oo''), ([0x1E5B], u ''ri''), ([0x1E5D], u ''ri'')]"

definition word_corrections :: "(ustring \<times> ustring) list" where
  "word_corrections =
     [(u ''dIp'' @ [0xF2] @ u ''vaLi'', u ''Deepavali''),
      (u ''d'' @ [0x12B] @ u ''p'' @ [0xF2] @ u ''va'' @ [0x1E3B] @ u ''i'', u ''Deepavali''),
      (u ''dIpAvalI'', u ''Deepavali''),
      (u ''d'' @ [0x12B] @ u ''p'' @ [0x101] @ u ''val'' @ [0x12B], u ''Deepavali''),
      (u ''dIpAvaLi'', u ''Deepavali''),
      (u ''d'' @ [0x12B] @ u ''p'' @ [0x101] @ u ''va'' @ [0x1E3B] @ u ''i'', u ''Deepavali''),
      (u ''avItAlat'', u ''Aveetalat''),
      (u ''av'' @ [0x12B] @ u ''t'' @ [0x101] @ u ''lat'', u ''Aveetalat''),
      (u ''dipavaLi'', u ''Deepavali'')]"

definition english_to_indian_corrections :: "(ustring \<times> ustring) list" where
  "english_to_indian_corrections =
     [(u ''Changes'', [0x91A, 0x947, 0x902, 0x91C, 0x947, 0x938]),
      (u ''Bhatta'', [0x92D, 0x91F, 0x94D, 0x91F, 0x93E]),
      (u ''Fall'', [0x92B, 0x949, 0x932]),
      (u ''Hello'', [0x939, 0x947, 0x932, 0x94B]),
      (u ''India'', [0x907, 0x902, 0x921, 0x93F, 0x92F, 0x93E]),
      (u ''Welcome'', [0x935, 0x947, 0x932, 0x915, 0x92E])]"

subsection \<open>Unicode block ranges\<close>

definition devanagari_range :: "nat \<Rightarrow> bool" where
  "devanagari_range c = (0x900 \<le> c \<and> c \<le> 0x97F)"

definition telugu_range :: "nat \<Rightarrow> bool" where
  "telugu_range c = (0xC00 \<le> c \<and> c \<le> 0xC7F)"

definition tamil_range :: "nat \<Rightarrow> bool" where
  "tamil_range c = (0xB80 \<le> c \<and> c \<le> 0xBFF)"

definition kannada_range :: "nat \<Rightarrow> bool" where
  "kannada_range c = (0xC80 \<le> c \<and> c \<le> 0xCFF)"

definition malayalam_range :: "nat \<Rightarrow> bool" where
  "malayalam_range c = (0xD00 \<le> c \<and> c \<le> 0xD7F)"

definition gujarati_range :: "nat \<Rightarrow> bool" where
  "gujarati_range c = (0xA80 \<le> c \<and> c \<le> 0xAFF)"

definition bengali_range :: "nat \<Rightarrow> bool" where
  "bengali_range c = (0x980 \<le> c \<and> c \<le> 0x9FF)"

definition punjabi_range :: "nat \<Rightarrow> bool" where
  "punjabi_range c = (0xA00 \<le> c \<and> c \<le> 0xA7F)"

text \<open>The combined pattern \<^verbatim>\<open>indian_scripts\<close> of \<^verbatim>\<open>_clean_indian_script\<close>: one character
  of any of the eight ranges.\<close>

definition indian_scripts :: "nat \<Rightarrow> bool" where
  "indian_scripts c =
     (devanagari_range c \<or> telugu_range c \<or> tamil_range c \<or> kannada_range c
      \<or> malayalam_range c \<or> gujarati_range c \<or> bengali_range c \<or> punjabi_range c)"

subsection \<open>\<^verbatim>\<open>_clean_indian_script\<close>\<close>

text \<open>
  Each \<^verbatim>\<open>re.sub\<close> scans from the left and continues after a match. The pattern
  \<^verbatim>\<open>indian_scripts\<close> brings its own parentheses, so in \<^verbatim>\<open>f'({indian_scripts})([A-Z])'\<close>
  group 1 and group 2 both hold the Indic character and the capital is group 3; the
  callbacks are modelled with the groups they name.

  First substitution, \<^verbatim>\<open>([A-Z])(indic)\<close> with \<^verbatim>\<open>group(1).lower() + group(2)\<close>.
\<close>

fun sub_before :: "py_unicode \<Rightarrow> ustring \<Rightarrow> ustring" where
  "sub_before U (a # b # rest) =
     (if is_AZ a \<and> indian_scripts b then py_lower U [a] @ [b] @ sub_before U rest
      else a # sub_before U (b # rest))"
| "sub_before U s = s"

text \<open>Second substitution, \<^verbatim>\<open>((indic))([A-Z])\<close> with \<^verbatim>\<open>group(1) + group(2).lower()\<close>.\<close>

fun sub_after :: "py_unicode \<Rightarrow> ustring \<Rightarrow> ustring" where
  "sub_after U (a # b # rest) =
     (if indian_scripts a \<and> is_AZ b then [a] @ py_lower U [a] @ sub_after U rest
      else a # sub_after U (b # rest))"
| "sub_after U s = s"

text \<open>Third substitution, \<^verbatim>\<open>((indic))([A-Z])((indic))\<close> with
  \<^verbatim>\<open>group(1) + group(2).lower() + group(3)\<close>.\<close>

fun sub_between :: "py_unicode \<Rightarrow> ustring \<Rightarrow> ustring" where
  "sub_between U (a # b # c # rest) =
     (if indian_scripts a \<and> is_AZ b \<and> indian_scripts c
      then [a] @ py_lower U [a] @ [b] @ sub_between U rest
      else a # sub_between U (b # c # rest))"
| "sub_between U s = s"

text \<open>Fourth substitution, \<^verbatim>\<open>\b[A-Z]\b\<close> with \<^verbatim>\<open>group(0).lower()\<close>: a capital with no
  word character on either side; \<open>prev\<close> tells whether the character before is one.\<close>

fun sub_standalone :: "py_unicode \<Rightarrow> bool \<Rightarrow> ustring \<Rightarrow> ustring" where
  "sub_standalone U prev [] = []"
| "sub_standalone U prev (c # cs) =
     (if is_AZ c \<and> \<not> prev \<and> (case cs of [] \<Rightarrow> True | d # _ \<Rightarrow> \<not> re_word U d)
      then py_lower U [c] @ sub_standalone U (re_word U c) cs
      else c # sub_standalone U (re_word U c) cs)"

definition clean_indian_script :: "py_unicode \<Rightarrow> ustring \<Rightarrow> ustring" where
  "clean_indian_script U text =
     sub_standalone U False (sub_between U (sub_after U (sub_before U text)))"

subsection \<open>\<^verbatim>\<open>_format_for_english\<close>\<close>

definition apply_vowel_length_mappings :: "ustring \<Rightarrow> ustring" where
  "apply_vowel_length_mappings text =
     foldl (\<lambda>t (diacritic, replacement). py_replace t diacritic replacement)
       text vowel_length_mappings"

definition long_vowels :: "ustring list" where
  "long_vowels = [u ''aa'', u ''ee'', u ''ii'', u ''oo'', u ''uu'']"

text \<open>The body of the loop over the words; \<^verbatim>\<open>word[0]\<close> of an empty word raises.\<close>

definition format_word :: "py_unicode \<Rightarrow> ustring \<Rightarrow> py_error + ustring" where
  "format_word U word =
     (if py_isupper U word then Inr word
      else case word of
        [] \<Rightarrow> Inl IndexError
      | c # rest \<Rightarrow>
          if py_isupper U [c] \<and> py_islower U rest then Inr word
          else if list_ex (\<lambda>d. sublist d word) long_vowels \<or> length word > 4
                  \<or> py_islower U word
          then Inr (py_title U word)
          else Inr word)"

fun format_words :: "py_unicode \<Rightarrow> ustring list \<Rightarrow> py_error + ustring list" where
  "format_words U [] = Inr []"
| "format_words U (word # words) =
     (case format_word U word of
        Inl e \<Rightarrow> Inl e
      | Inr w \<Rightarrow> (case format_words U words of Inl e \<Rightarrow> Inl e | Inr ws \<Rightarrow> Inr (w # ws)))"

definition format_for_english :: "py_unicode \<Rightarrow> ustring \<Rightarrow> py_error + ustring" where
  "format_for_english U text =
     (case format_words U (py_split (apply_vowel_length_mappings text)) of
        Inl e \<Rightarrow> Inl e
      | Inr formatted_words \<Rightarrow> Inr (py_join (u '' '') formatted_words))"

subsection \<open>\<^verbatim>\<open>clean_transliteration\<close>\<close>

text \<open>The test that chooses the branch (five ranges).\<close>

definition is_indian_script :: "ustring \<Rightarrow> bool" where
  "is_indian_script text =
     (list_ex devanagari_range text \<or> list_ex telugu_range text \<or> list_ex tamil_range text
      \<or> list_ex kannada_range text \<or> list_ex gujarati_range text)"

definition word_correction_step :: "py_unicode \<Rightarrow> ustring \<Rightarrow> ustring \<times> ustring \<Rightarrow> ustring" where
  "word_correction_step U cleaned_text kv =
     (if sublist (py_lower U (fst kv)) (py_lower U cleaned_text)
      then py_replace cleaned_text (fst kv) (snd kv) else cleaned_text)"

definition apply_word_corrections :: "py_unicode \<Rightarrow> ustring \<Rightarrow> ustring" where
  "apply_word_corrections U text = foldl (word_correction_step U) text word_corrections"

definition has_english_caps :: "py_unicode \<Rightarrow> ustring \<Rightarrow> bool" where
  "has_english_caps U cleaned_text =
     list_ex (\<lambda>c. py_isupper U [c] \<and> py_isalpha U [c]) cleaned_text"

definition has_indian_script :: "ustring \<Rightarrow> bool" where
  "has_indian_script cleaned_text =
     (list_ex devanagari_range cleaned_text \<or> list_ex telugu_range cleaned_text
      \<or> list_ex tamil_range cleaned_text)"

definition english_to_indian_step :: "ustring \<Rightarrow> ustring \<times> ustring \<Rightarrow> ustring" where
  "english_to_indian_step cleaned_text kv =
     (if sublist (fst kv) cleaned_text then py_replace cleaned_text (fst kv) (snd kv)
      else cleaned_text)"

definition apply_english_to_indian :: "py_unicode \<Rightarrow> ustring \<Rightarrow> ustring" where
  "apply_english_to_indian U cleaned_text =
     (if has_english_caps U cleaned_text \<and> has_indian_script cleaned_text
      then foldl english_to_indian_step cleaned_text english_to_indian_corrections
      else cleaned_text)"

definition apply_character_replacements :: "ustring \<Rightarrow> ustring" where
  "apply_character_replacements cleaned_text =
     foldl (\<lambda>t (old_char, new_char). py_replace t old_char new_char)
       cleaned_text character_replacements"

definition is_roman_target :: "ustring \<Rightarrow> bool" where
  "is_roman_target target_script =
     (target_script \<in> set [u ''roman'', u ''english'', u ''ITRANS'', u ''Latin'']
      \<or> target_script \<in> set [u ''ITRANS'', u ''Latin''])"

definition normalize_spaces :: "ustring \<Rightarrow> ustring" where
  "normalize_spaces s = py_join (u '' '') (py_split s)"

definition clean_non_indian :: "py_unicode \<Rightarrow> ustring \<Rightarrow> ustring \<Rightarrow> py_error + ustring" where
  "clean_non_indian U text target_script =
     (let cleaned_text =
        apply_character_replacements
          (apply_english_to_indian U (apply_word_corrections U text))
      in if is_roman_target target_script then format_for_english U cleaned_text
         else Inr cleaned_text)"

definition clean_transliteration :: "py_unicode \<Rightarrow> ustring \<Rightarrow> ustring \<Rightarrow> py_error + ustring" where
  "clean_transliteration U text target_script =
     (if text = [] then Inr text
      else case (if is_indian_script text then Inr (clean_indian_script U text)
                 else clean_non_indian U text target_script) of
             Inl e \<Rightarrow> Inl e
           | Inr cleaned_text \<Rightarrow> Inr (normalize_spaces cleaned_text))"

section \<open>views.py\<close>

text \<open>
  Both views are modelled from the text that OCR returned onwards. The language detector
  \<open>detect\<close> and the transliteration engine \<open>process\<close> are external and may raise: they
  are parameters returning an error or a value.
\<close>

definition ITRANS :: ustring where
  "ITRANS = u ''ITRANS''"

definition language_to_script :: "(ustring \<times> ustring) list" where
  "language_to_script =
     [(u ''hi'', u ''Devanagari''), (u ''mr'', u ''Devanagari''), (u ''ta'', u ''Tamil''),
      (u ''te'', u ''Telugu''), (u ''kn'', u ''Kannada''), (u ''ml'', u ''Malayalam''),
      (u ''gu'', u ''Gujarati''), (u ''bn'', u ''Bengali''), (u ''pa'', u ''Gurmukhi''),
      (u ''or'', u ''Oriya''), (u ''as'', u ''Bengali''), (u ''en'', u ''ITRANS'')]"

text \<open>\<^verbatim>\<open>d.get(key, default)\<close>.\<close>

definition dict_get :: "(ustring \<times> ustring) list \<Rightarrow> ustring \<Rightarrow> ustring \<Rightarrow> ustring" where
  "dict_get d k dflt = (case map_of d k of Some v \<Rightarrow> v | None \<Rightarrow> dflt)"

definition target_scripts :: "(ustring \<times> ustring) list" where
  "target_scripts =
     [(u ''Devanagari (Hindi)'', u ''Devanagari''), (u ''Devanagari (Marathi)'', u ''Devanagari''),
      (u ''Tamil'', u ''Tamil''), (u ''Telugu'', u ''Telugu''), (u ''Kannada'', u ''Kannada''),
      (u ''Malayalam'', u ''Malayalam''), (u ''Gujarati'', u ''Gujarati''),
      (u ''Bengali'', u ''Bengali''), (u ''Gurmukhi'', u ''Gurmukhi''), (u ''Oriya'', u ''Oriya''),
      (u ''Roman'', u ''ITRANS'')]"

type_synonym converter = "ustring \<Rightarrow> ustring \<Rightarrow> ustring \<Rightarrow> py_error + ustring"

text \<open>A conversion followed by \<^verbatim>\<open>formatter.clean_transliteration\<close>, inside one \<^verbatim>\<open>try\<close>.\<close>

definition then_clean :: "py_unicode \<Rightarrow> py_error + ustring \<Rightarrow> ustring \<Rightarrow> py_error + ustring" where
  "then_clean U converted script_code =
     (case converted of Inl e \<Rightarrow> Inl e | Inr t \<Rightarrow> clean_transliteration U t script_code)"

text \<open>
  The body of the loop over \<^verbatim>\<open>target_scripts.items()\<close>, the same in both views but for the
  test \<open>english\<close>: the conversion and its formatting; if either raises, the conversion from
  ITRANS and its formatting; if that raises, the extracted text.
\<close>

definition primary_conversion ::
  "converter \<Rightarrow> bool \<Rightarrow> ustring \<Rightarrow> ustring \<Rightarrow> ustring \<Rightarrow> py_error + ustring" where
  "primary_conversion process english source_script extracted_text script_code =
     (if english
      then (if script_code = ITRANS then Inr extracted_text
            else process ITRANS script_code extracted_text)
      else process source_script script_code extracted_text)"

definition target_entry ::
  "py_unicode \<Rightarrow> converter \<Rightarrow> bool \<Rightarrow> ustring \<Rightarrow> ustring \<Rightarrow> ustring \<Rightarrow> ustring" where
  "target_entry U process english source_script extracted_text script_code =
     (case then_clean U
             (primary_conversion process english source_script extracted_text script_code)
             script_code of
        Inr formatted_text \<Rightarrow> formatted_text
      | Inl e \<Rightarrow>
          (case then_clean U (process ITRANS script_code extracted_text) script_code of
             Inr formatted_text \<Rightarrow> formatted_text
           | Inl e2 \<Rightarrow> extracted_text))"

text \<open>The loop: \<^verbatim>\<open>transliterations[script_name] = ...\<close> is the update of a dictionary
  that keeps insertion order.\<close>

definition all_targets ::
  "py_unicode \<Rightarrow> converter \<Rightarrow> bool \<Rightarrow> ustring \<Rightarrow> ustring \<Rightarrow> (ustring \<times> ustring) list" where
  "all_targets U process english source_script extracted_text =
     foldl (\<lambda>transliterations (script_name, script_code).
              AList.update script_name
                (target_entry U process english source_script extracted_text script_code)
                transliterations)
       [] target_scripts"

datatype http_error = NoTextExtracted

subsection \<open>\<^verbatim>\<open>transliterate_image\<close>\<close>

definition image_is_english :: "ustring \<Rightarrow> bool" where
  "image_is_english detected_language =
     (detected_language = u ''en'' \<or> detected_language = [] \<or> detected_language = u ''unknown'')"

definition image_source_script :: "ustring \<Rightarrow> ustring" where
  "image_source_script detected_language =
     (if image_is_english detected_language then u ''ITRANS''
      else dict_get language_to_script detected_language (u ''ITRANS''))"

record image_response =
  original_text :: ustring
  detected_language :: ustring
  transliterations :: "(ustring \<times> ustring) list"

definition transliterate_image ::
  "py_unicode \<Rightarrow> (ustring \<Rightarrow> py_error + ustring) \<Rightarrow> converter \<Rightarrow> ustring
     \<Rightarrow> http_error + image_response" where
  "transliterate_image U detect process ocr_text =
     (let extracted_text = py_join (u '' '') (py_split ocr_text)
      in if extracted_text = [] then Inl NoTextExtracted
         else
           let detected = (case detect extracted_text of Inr l \<Rightarrow> l | Inl e \<Rightarrow> u ''unknown'')
           in Inr \<lparr>original_text = extracted_text,
                   detected_language = detected,
                   transliterations =
                     all_targets U process (image_is_english detected)
                       (image_source_script detected) extracted_text\<rparr>)"

subsection \<open>\<^verbatim>\<open>transliterate_single\<close>\<close>

definition actual_source_language :: "ustring \<Rightarrow> ustring \<Rightarrow> ustring" where
  "actual_source_language detected source_language =
     (if detected = u ''en'' \<or> source_language = u ''en'' then u ''en''
      else if detected \<noteq> u ''unknown'' then detected else source_language)"

definition single_source_script :: "ustring \<Rightarrow> ustring" where
  "single_source_script actual = dict_get language_to_script actual (u ''Devanagari'')"

definition single_target_script :: "ustring \<Rightarrow> ustring" where
  "single_target_script target_language = dict_get language_to_script target_language (u ''ITRANS'')"

definition failure_message :: "ustring \<Rightarrow> ustring" where
  "failure_message extracted_text =
     u ''[Transliteration failed: OCR output appears to be garbled. Original: ''
       @ take 50 extracted_text @ u ''...]''"

definition single_transliteration ::
  "py_unicode \<Rightarrow> converter \<Rightarrow> ustring \<Rightarrow> ustring \<Rightarrow> ustring \<Rightarrow> ustring \<Rightarrow> ustring" where
  "single_transliteration U process actual source_script target_script extracted_text =
     (case (if actual = u ''en''
            then (if target_script = ITRANS then Inr extracted_text
                  else then_clean U (process ITRANS target_script extracted_text) target_script)
            else then_clean U (process source_script target_script extracted_text) target_script) of
        Inr transliterated_text \<Rightarrow> transliterated_text
      | Inl e \<Rightarrow>
          (case then_clean U (process ITRANS target_script extracted_text) target_script of
             Inr transliterated_text \<Rightarrow> transliterated_text
           | Inl e2 \<Rightarrow> failure_message extracted_text))"

record single_response =
  single_original_text :: ustring
  single_detected_language :: ustring
  target_language :: ustring
  transliterated_text :: ustring
  all_transliterations :: "(ustring \<times> ustring) list"

definition transliterate_single ::
  "py_unicode \<Rightarrow> (ustring \<Rightarrow> py_error + ustring) \<Rightarrow> converter \<Rightarrow> ustring \<Rightarrow> ustring \<Rightarrow> ustring
     \<Rightarrow> http_error + single_response" where
  "transliterate_single U detect process source_language target_lang ocr_text =
     (let extracted_text = py_join (u '' '') (py_split ocr_text)
      in if extracted_text = [] then Inl NoTextExtracted
         else
           let detected = (case detect extracted_text of Inr l \<Rightarrow> l | Inl e \<Rightarrow> source_language);
               actual = actual_source_language detected source_language;
               source_script = single_source_script actual;
               target_script = single_target_script target_lang
           in Inr \<lparr>single_original_text = extracted_text,
                   single_detected_language = actual,
                   target_language = target_lang,
                   transliterated_text =
                     single_transliteration U process actual source_script target_script
                       extracted_text,
                   all_transliterations =
                     all_targets U process (actual = u ''en'') source_script extracted_text\<rparr>)"

subsection \<open>Converters and detectors for concrete runs\<close>

text \<open>A converter that raises on every call, one that converts from ITRANS only, and one
  that always succeeds (returning its input); detectors answering a fixed language.\<close>

definition failing_process :: converter where
  "failing_process source target text = Inl ConversionError"

definition itrans_only_process :: converter where
  "itrans_only_process source target text =
     (if source = ITRANS then Inr text else Inl ConversionError)"

definition echo_process :: converter where
  "echo_process source target text = Inr text"

definition detect_en :: "ustring \<Rightarrow> py_error + ustring" where
  "detect_en text = Inr (u ''en'')"

definition detect_hi :: "ustring \<Rightarrow> py_error + ustring" where
  "detect_hi text = Inr (u ''hi'')"

text \<open>The display names of \<^verbatim>\<open>target_scripts\<close>, in declaration order.\<close>

definition target_names :: "ustring list" where
  "target_names =
     [u ''Devanagari (Hindi)'', u ''Devanagari (Marathi)'', u ''Tamil'', u ''Telugu'',
      u ''Kannada'', u ''Malayalam'', u ''Gujarati'', u ''Bengali'', u ''Gurmukhi'', u ''Oriya'',
      u ''Roman'']"







section \<open>Evaluation and totality\<close>

lemmas str_eval = u_def py_split_def py_isspace_def py_replace_def sublist_Cons_right
  is_AZ_def is_az_def is_09_def ascii_lower_cp_def ascii_upper_cp_def
  basic_unicode_def basic_isupper_def basic_islower_def basic_isalpha_def devanagari_alpha_def
  devanagari_digit_def re_word_def

lemmas range_eval = devanagari_range_def telugu_range_def tamil_range_def kannada_range_def
  malayalam_range_def gujarati_range_def bengali_range_def punjabi_range_def indian_scripts_def

lemmas clean_eval = clean_transliteration_def clean_non_indian_def is_indian_script_def
  apply_word_corrections_def word_corrections_def word_correction_step_def
  apply_english_to_indian_def has_english_caps_def has_indian_script_def
  english_to_indian_corrections_def english_to_indian_step_def
  apply_character_replacements_def character_replacements_def
  is_roman_target_def format_for_english_def apply_vowel_length_mappings_def
  vowel_length_mappings_def format_word_def long_vowels_def normalize_spaces_def
  clean_indian_script_def range_eval str_eval

text \<open>\<^verbatim>\<open>split()\<close> returns no empty word, so \<^verbatim>\<open>word[0]\<close> never raises and the formatter
  always returns.\<close>

lemma split_from_nonempty: "[] \<notin> set (split_from w s)"
  by (induction s arbitrary: w) auto

lemma py_split_nonempty: "[] \<notin> set (py_split s)"
  by (simp add: py_split_def split_from_nonempty)

lemma format_word_total: "word \<noteq> [] \<Longrightarrow> \<exists>w. format_word U word = Inr w"
  by (cases word) (auto simp: format_word_def)

lemma format_words_total: "[] \<notin> set words \<Longrightarrow> \<exists>ws. format_words U words = Inr ws"
proof (induction words)
  case Nil
  then show ?case by simp
next
  case (Cons w words)
  then obtain w' ws' where "format_word U w = Inr w'" "format_words U words = Inr ws'"
    using format_word_total [of w U] by auto
  then show ?case by simp
qed

lemma format_for_english_total: "\<exists>y. format_for_english U s = Inr y"
proof -
  obtain ws where "format_words U (py_split (apply_vowel_length_mappings s)) = Inr ws"
    using format_words_total [OF py_split_nonempty] by blast
  then show ?thesis by (simp add: format_for_english_def)
qed

lemma clean_transliteration_total: "\<exists>y. clean_transliteration U s t = Inr y"
proof -
  obtain y where "format_for_english U
      (apply_character_replacements (apply_english_to_indian U (apply_word_corrections U s)))
        = Inr y"
    using format_for_english_total by blast
  then show ?thesis
    by (simp add: clean_transliteration_def clean_non_indian_def Let_def)
qed

lemma then_clean_Inl: "then_clean U (Inl e) code = Inl e"
  by (simp add: then_clean_def)

subsection \<open>Concrete runs of the formatter\<close>

lemma clean_hello_roman:
  "clean_transliteration basic_unicode (u ''hello'') (u ''ITRANS'') = Inr (u ''Hello'')"
  by (simp add: clean_eval)

lemma clean_India_tamil:
  "clean_transliteration basic_unicode (u ''India'') (u ''Tamil'') = Inr (u ''india'')"
  by (simp add: clean_eval)

subsection \<open>The loop over the targets\<close>

lemma all_targets_keys:
  "map fst (all_targets U process english src s) = map fst target_scripts"
  by (simp add: all_targets_def target_scripts_def u_def)

lemma all_targets_entries:
  "all_targets U process english src s =
     map (\<lambda>(script_name, script_code).
            (script_name, target_entry U process english src s script_code)) target_scripts"
  by (simp add: all_targets_def target_scripts_def u_def)

lemma map_of_all_targets:
  "list_all (\<lambda>(script_name, script_code).
      map_of (all_targets U process english src s) script_name =
        Some (target_entry U process english src s script_code)) target_scripts"
  by (simp add: all_targets_entries) (simp add: target_scripts_def u_def)

lemma roman_entry:
  "map_of (all_targets U process english src s) (u ''Roman'') =
     Some (target_entry U process english src s (u ''ITRANS''))"
  by (simp add: all_targets_entries) (simp add: target_scripts_def u_def)

lemma target_entry_english_roman:
  "clean_transliteration U s (u ''ITRANS'') = Inr y \<Longrightarrow>
   target_entry U process True src s (u ''ITRANS'') = y"
  by (simp add: target_entry_def primary_conversion_def then_clean_def ITRANS_def)

subsection \<open>Concrete runs of the views\<close>

lemma normalize_hello: "py_join (u '' '') (py_split (u ''hello'')) = u ''hello''"
  by (simp add: str_eval)

lemma normalize_India: "py_join (u '' '') (py_split (u ''India'')) = u ''India''"
  by (simp add: str_eval)

lemma hello_nonempty: "u ''hello'' \<noteq> []"
  by (simp add: u_def)

lemma India_nonempty: "u ''India'' \<noteq> []"
  by (simp add: u_def)

lemma image_hello:
  "transliterate_image U detect_en process (u ''hello'') =
     Inr \<lparr>original_text = u ''hello'', detected_language = u ''en'',
          transliterations = all_targets U process True (u ''ITRANS'') (u ''hello'')\<rparr>"
  by (simp add: transliterate_image_def Let_def normalize_hello hello_nonempty detect_en_def
      image_is_english_def image_source_script_def)

lemma image_India_hi:
  "transliterate_image U detect_hi process (u ''India'') =
     Inr \<lparr>original_text = u ''India'', detected_language = u ''hi'',
          transliterations = all_targets U process False (u ''Devanagari'') (u ''India'')\<rparr>"
proof -
  have "\<not> image_is_english (u ''hi'')"
    by (simp add: image_is_english_def u_def)
  moreover have "dict_get language_to_script (u ''hi'') (u ''ITRANS'') = u ''Devanagari''"
    by (simp add: dict_get_def language_to_script_def u_def)
  ultimately show ?thesis
    by (simp add: transliterate_image_def Let_def normalize_India India_nonempty detect_hi_def
        image_source_script_def)
qed

lemma single_hello:
  "transliterate_single U detect_en process (u ''hi'') (u ''en'') (u ''hello'') =
     Inr \<lparr>single_original_text = u ''hello'', single_detected_language = u ''en'',
          target_language = u ''en'',
          transliterated_text = u ''hello'',
          all_transliterations = all_targets U process True (u ''ITRANS'') (u ''hello'')\<rparr>"
proof -
  have "dict_get language_to_script (u ''en'') (u ''Devanagari'') = u ''ITRANS''"
    "dict_get language_to_script (u ''en'') (u ''ITRANS'') = u ''ITRANS''"
    by (simp_all add: dict_get_def language_to_script_def u_def)
  then show ?thesis
    by (simp add: transliterate_single_def Let_def normalize_hello hello_nonempty detect_en_def
        actual_source_language_def single_source_script_def single_target_script_def
        single_transliteration_def ITRANS_def)
qed

lemma failure_message_marked: "sublist (u ''Transliteration failed'') (failure_message s)"
proof -
  have "failure_message s = u ''['' @ u ''Transliteration failed''
      @ (u '': OCR output appears to be garbled. Original: '' @ take 50 s @ u ''...]'')"
    by (simp add: failure_message_def u_def)
  then show ?thesis by (metis sublist_appendI)
qed


section \<open>Properties of the string operations\<close>

subsection \<open>\<^verbatim>\<open>replace\<close>\<close>

lemma set_replace_nonempty: "set (replace_nonempty old new s) \<subseteq> set s \<union> set new"
proof (induction old new s rule: replace_nonempty.induct)
  case (1 old new)
  then show ?case by simp
next
  case (2 old new c cs)
  show ?case
  proof (cases "old \<noteq> [] \<and> prefix old (c # cs)")
    case True
    have "set (drop (length old) (c # cs)) \<subseteq> set (c # cs)"
      by (rule set_drop_subset)
    with True 2 show ?thesis by auto
  next
    case False
    with 2 show ?thesis by auto
  qed
qed

lemma set_py_replace: "set (py_replace s old new) \<subseteq> set s \<union> set new"
proof (cases "old = []")
  case True
  then show ?thesis by (auto simp: py_replace_def)
next
  case False
  then show ?thesis using set_replace_nonempty by (simp add: py_replace_def)
qed

lemma replace_nonempty_absent: "\<not> sublist old s \<Longrightarrow> replace_nonempty old new s = s"
proof (induction s)
  case Nil
  then show ?case by simp
next
  case (Cons c cs)
  then have "\<not> prefix old (c # cs)" "\<not> sublist old cs"
    by (simp_all add: sublist_Cons_right)
  with Cons.IH show ?case by simp
qed

lemma py_replace_absent: "\<not> sublist old s \<Longrightarrow> py_replace s old new = s"
proof -
  assume a: "\<not> sublist old s"
  then have "old \<noteq> []" by auto
  with a show ?thesis by (simp add: py_replace_def replace_nonempty_absent)
qed



lemma replace_nonempty_at_head:
  "k \<noteq> [] \<Longrightarrow> replace_nonempty k c (k @ b) = c @ replace_nonempty k c b"
proof (cases k)
  case Nil
  assume "k \<noteq> []"
  with Nil show ?thesis by simp
next
  case (Cons x xs)
  have "replace_nonempty (x # xs) c (x # (xs @ b))
      = c @ replace_nonempty (x # xs) c (drop (length (x # xs)) (x # (xs @ b)))"
    by (subst replace_nonempty.simps) simp
  with Cons show ?thesis by simp
qed

lemma py_replace_first:
  assumes "k \<noteq> []" and "\<not> sublist k (a @ butlast k)"
  shows "py_replace (a @ k @ b) k c = a @ c @ py_replace b k c"
  using assms(2)
proof (induction a)
  case Nil
  with assms(1) show ?case
    by (simp add: py_replace_def replace_nonempty_at_head)
next
  case (Cons x a)
  have "\<not> prefix k ((x # a) @ k @ b)"
  proof
    assume p: "prefix k ((x # a) @ k @ b)"
    have "(x # a) @ k @ b = ((x # a) @ butlast k) @ (last k # b)"
      using assms(1) by simp
    moreover have "length k \<le> length ((x # a) @ butlast k)"
      by simp
    ultimately have "prefix k ((x # a) @ butlast k)"
      using p by (metis prefix_length_prefix prefixI)
    with Cons.prems show False by auto
  qed
  moreover have "\<not> sublist k (a @ butlast k)"
    using Cons.prems by (simp add: sublist_Cons_right)
  ultimately show ?case
    using Cons.IH assms(1) by (simp add: py_replace_def)
qed

subsection \<open>\<^verbatim>\<open>split\<close> and \<^verbatim>\<open>join\<close>\<close>










subsection \<open>The steps of the non-Indic branch\<close>

lemma has_indian_script_routes: "has_indian_script s \<Longrightarrow> is_indian_script s"
  by (auto simp: has_indian_script_def is_indian_script_def)

lemma set_word_correction_step:
  "set (word_correction_step U s kv) \<subseteq> set s \<union> set (snd kv)"
  using set_py_replace [of s "fst kv" "snd kv"] by (auto simp: word_correction_step_def)

lemma set_foldl_word_corrections:
  "set (foldl (word_correction_step U) s kvs) \<subseteq> set s \<union> (\<Union>kv \<in> set kvs. set (snd kv))"
proof (induction kvs arbitrary: s)
  case Nil
  then show ?case by simp
next
  case (Cons kv kvs)
  show ?case
    using Cons.IH [of "word_correction_step U s kv"] set_word_correction_step [of U s kv]
    by auto
qed

lemma canonical_forms_ascii: "kv \<in> set word_corrections \<Longrightarrow> c \<in> set (snd kv) \<Longrightarrow> c < 0x80"
  by (auto simp: word_corrections_def u_def)

lemma set_apply_word_corrections:
  "c \<in> set (apply_word_corrections U s) \<Longrightarrow> c \<in> set s \<or> c < 0x80"
  using set_foldl_word_corrections [of U s word_corrections] canonical_forms_ascii
  by (fastforce simp: apply_word_corrections_def)

lemma word_corrections_keep_branch:
  "\<not> is_indian_script s \<Longrightarrow> \<not> is_indian_script (apply_word_corrections U s)"
  unfolding is_indian_script_def list_ex_iff devanagari_range_def telugu_range_def
    tamil_range_def kannada_range_def gujarati_range_def
  using set_apply_word_corrections [of _ U s] by fastforce

lemma wc_dipavali: "apply_word_corrections basic_unicode (u ''dIpAvalI'') = u ''Deepavali''"
  by (simp add: clean_eval)







lemma foldl_word_corrections_absent:
  "\<forall>kv \<in> set tbl. \<not> sublist (fst kv) s \<Longrightarrow> foldl (word_correction_step U) s tbl = s"
proof (induction tbl)
  case Nil
  then show ?case by simp
next
  case (Cons kv tbl)
  then have "word_correction_step U s kv = s"
    by (simp add: word_correction_step_def py_replace_absent)
  with Cons show ?case by simp
qed








lemma single_hello_tamil:
  "transliterate_single U detect_en process (u ''hi'') (u ''ta'') (u ''hello'') =
     Inr \<lparr>single_original_text = u ''hello'', single_detected_language = u ''en'',
          target_language = u ''ta'',
          transliterated_text =
            single_transliteration U process (u ''en'') (u ''ITRANS'') (u ''Tamil'') (u ''hello''),
          all_transliterations = all_targets U process True (u ''ITRANS'') (u ''hello'')\<rparr>"
proof -
  have "dict_get language_to_script (u ''en'') (u ''Devanagari'') = u ''ITRANS''"
    "dict_get language_to_script (u ''ta'') (u ''ITRANS'') = u ''Tamil''"
    by (simp_all add: dict_get_def language_to_script_def u_def)
  then show ?thesis
    by (simp add: transliterate_single_def Let_def normalize_hello hello_nonempty detect_en_def
        actual_source_language_def single_source_script_def single_target_script_def)
qed

subsection \<open>The non-Indic branch as a whole\<close>

lemma non_indian_branch_pipeline:
  assumes "\<not> is_indian_script s"
  shows "clean_transliteration U s t =
     (if s = [] then Inr s
      else case (if is_roman_target t
                 then format_for_english U
                        (apply_character_replacements
                          (foldl (word_correction_step U) s word_corrections))
                 else Inr (apply_character_replacements
                          (foldl (word_correction_step U) s word_corrections))) of
             Inl e \<Rightarrow> Inl e
           | Inr cleaned_text \<Rightarrow> Inr (normalize_spaces cleaned_text))"
proof -
  have "\<not> has_indian_script (apply_word_corrections U s)"
    using assms word_corrections_keep_branch has_indian_script_routes by blast
  then have "apply_english_to_indian U (apply_word_corrections U s) = apply_word_corrections U s"
    by (simp add: apply_english_to_indian_def)
  then show ?thesis
    using assms
    by (simp add: clean_transliteration_def clean_non_indian_def Let_def
        apply_word_corrections_def)
qed

lemma word_correction_step_exact:
  assumes "sublist k s \<longrightarrow> sublist (py_lower U k) (py_lower U s)"
  shows "word_correction_step U s (k, c) = py_replace s k c"
proof (cases "sublist k s")
  case True
  with assms show ?thesis by (simp add: word_correction_step_def)
next
  case False
  then show ?thesis by (simp add: word_correction_step_def py_replace_absent)
qed

lemma foldl_word_corrections_exact:
  assumes "py_lower U = map f"
  shows "foldl (word_correction_step U) s tbl
       = foldl (\<lambda>t kv. py_replace t (fst kv) (snd kv)) s tbl"
proof (induction tbl arbitrary: s)
  case Nil
  then show ?case by simp
next
  case (Cons kv tbl)
  have "sublist (fst kv) s \<longrightarrow> sublist (py_lower U (fst kv)) (py_lower U s)"
    using assms by (simp add: map_mono_sublist)
  then have "word_correction_step U s (fst kv, snd kv) = py_replace s (fst kv) (snd kv)"
    by (rule word_correction_step_exact)
  with Cons show ?case by simp
qed

lemma clean_mixed_tamil:
  "clean_transliteration basic_unicode (u ''a dIpAvalI b DIPAVALI'') (u ''Tamil'')
     = Inr (u ''a Deepavali b DiPaVaLi'')"
  by (simp add: clean_eval)


subsection \<open>Letter-only text and a Roman target\<close>

































section \<open>The no-op conversion path (C2)\<close>

text \<open>
  C2 as stated fails. For the extracted text \<^verbatim>\<open>hello\<close> detected as English, the Roman
  entry of \<^verbatim>\<open>transliterate_image\<close> is \<^verbatim>\<open>Hello\<close>: the text, which no conversion touched,
  still goes through \<^verbatim>\<open>clean_transliteration\<close> with target ITRANS, which title-cases it.
\<close>

theorem roman_entry_not_input_counterexample:
  "transliterate_image basic_unicode detect_en echo_process (u ''hello'') =
     Inr \<lparr>original_text = u ''hello'', detected_language = u ''en'',
          transliterations =
            all_targets basic_unicode echo_process True (u ''ITRANS'') (u ''hello'')\<rparr>
   \<and> map_of (all_targets basic_unicode echo_process True (u ''ITRANS'') (u ''hello''))
        (u ''Roman'') = Some (u ''Hello'')
   \<and> u ''Hello'' \<noteq> u ''hello''"
proof -
  have "u ''Hello'' \<noteq> u ''hello''" by (simp add: u_def)
  then show ?thesis
    by (simp add: image_hello roman_entry target_entry_english_roman [OF clean_hello_roman])
qed

text \<open>
  C2, amended. When the source resolves to English, the Roman entry of the all-targets
  mapping (in both views, whatever the requested target) is the output of
  \<^verbatim>\<open>clean_transliteration\<close> on the whitespace-normalized input text with target ITRANS;
  the converter is not consulted for it. Only the single-target result of
  \<^verbatim>\<open>transliterate_single\<close>, for an English source and a target resolving to ITRANS, is
  that input text unchanged.
\<close>

theorem roman_entry_is_normalized_input:
  "(transliterate_image U detect process ocr_text = Inr r
      \<and> image_is_english (detected_language r)
    \<longrightarrow> original_text r = normalize_spaces ocr_text
        \<and> (\<exists>y. clean_transliteration U (original_text r) (u ''ITRANS'') = Inr y
                \<and> map_of (transliterations r) (u ''Roman'') = Some y))
   \<and> (transliterate_single U detect process source_language target_lang ocr_text = Inr r2
      \<and> single_detected_language r2 = u ''en''
    \<longrightarrow> single_original_text r2 = normalize_spaces ocr_text
        \<and> (\<exists>y. clean_transliteration U (single_original_text r2) (u ''ITRANS'') = Inr y
                \<and> map_of (all_transliterations r2) (u ''Roman'') = Some y))
   \<and> (transliterate_single U detect process source_language3 target_lang3 ocr_text3 = Inr r3
      \<and> single_detected_language r3 = u ''en''
      \<and> single_target_script target_lang3 = u ''ITRANS''
    \<longrightarrow> transliterated_text r3 = single_original_text r3)"
proof -
  have rom: "\<exists>y. clean_transliteration U s (u ''ITRANS'') = Inr y
      \<and> map_of (all_targets U process True src s) (u ''Roman'') = Some y" for s src
    using clean_transliteration_total [of U s "u ''ITRANS''"]
    by (auto simp: roman_entry target_entry_english_roman)
  have single: "single_transliteration U process (u ''en'') src (u ''ITRANS'') s = s"
    for src s
    by (simp add: single_transliteration_def ITRANS_def)
  show ?thesis
    using rom
    by (auto simp: transliterate_image_def transliterate_single_def Let_def normalize_spaces_def
        single split: if_splits)
qed

theorem roman_entry_is_normalized_input_witness:
  "transliterate_image basic_unicode detect_en echo_process (u ''hello'') =
     Inr \<lparr>original_text = u ''hello'', detected_language = u ''en'',
          transliterations =
            all_targets basic_unicode echo_process True (u ''ITRANS'') (u ''hello'')\<rparr>
   \<and> image_is_english (u ''en'')
   \<and> clean_transliteration basic_unicode (u ''hello'') (u ''ITRANS'') = Inr (u ''Hello'')
   \<and> map_of (all_targets basic_unicode echo_process True (u ''ITRANS'') (u ''hello''))
        (u ''Roman'') = Some (u ''Hello'')
   \<and> transliterate_single basic_unicode detect_en echo_process (u ''hi'') (u ''ta'') (u ''hello'') =
     Inr \<lparr>single_original_text = u ''hello'', single_detected_language = u ''en'',
          target_language = u ''ta'',
          transliterated_text =
            single_transliteration basic_unicode echo_process (u ''en'') (u ''ITRANS'')
              (u ''Tamil'') (u ''hello''),
          all_transliterations =
            all_targets basic_unicode echo_process True (u ''ITRANS'') (u ''hello'')\<rparr>
   \<and> transliterate_single basic_unicode detect_en echo_process (u ''hi'') (u ''en'') (u ''hello'') =
     Inr \<lparr>single_original_text = u ''hello'', single_detected_language = u ''en'',
          target_language = u ''en'', transliterated_text = u ''hello'',
          all_transliterations =
            all_targets basic_unicode echo_process True (u ''ITRANS'') (u ''hello'')\<rparr>
   \<and> single_target_script (u ''en'') = u ''ITRANS''"
proof -
  have h: "image_is_english (u ''en'')"
    by (simp add: image_is_english_def)
  have t: "single_target_script (u ''en'') = u ''ITRANS''"
    by (simp add: single_target_script_def dict_get_def language_to_script_def u_def)
  show ?thesis
    using h t image_hello [of basic_unicode echo_process]
      single_hello [of basic_unicode echo_process]
      single_hello_tamil [of basic_unicode echo_process] clean_hello_roman
      roman_entry_is_normalized_input [of basic_unicode detect_en echo_process "u ''hello''"
        "\<lparr>original_text = u ''hello'', detected_language = u ''en'',
          transliterations =
            all_targets basic_unicode echo_process True (u ''ITRANS'') (u ''hello'')\<rparr>"
        "u ''hi''" "u ''ta''"
        "\<lparr>single_original_text = u ''hello'', single_detected_language = u ''en'',
          target_language = u ''ta'',
          transliterated_text =
            single_transliteration basic_unicode echo_process (u ''en'') (u ''ITRANS'')
              (u ''Tamil'') (u ''hello''),
          all_transliterations =
            all_targets basic_unicode echo_process True (u ''ITRANS'') (u ''hello'')\<rparr>"
        "u ''hi''" "u ''en''" "u ''hello''"
        "\<lparr>single_original_text = u ''hello'', single_detected_language = u ''en'',
          target_language = u ''en'', transliterated_text = u ''hello'',
          all_transliterations =
            all_targets basic_unicode echo_process True (u ''ITRANS'') (u ''hello'')\<rparr>"]
    by auto
qed

section \<open>What is stored in the all-targets mapping (C3)\<close>

text \<open>
  C3 as stated fails. With a converter that always raises and the text \<^verbatim>\<open>India\<close>
  detected as Hindi, the Tamil entry is the raw text \<^verbatim>\<open>India\<close>, whereas the normalizer
  gives \<^verbatim>\<open>india\<close> for it: the substituted text is stored as it is.
\<close>

theorem raw_substitution_not_normalized_counterexample:
  "transliterate_image basic_unicode detect_hi failing_process (u ''India'') =
     Inr \<lparr>original_text = u ''India'', detected_language = u ''hi'',
          transliterations =
            all_targets basic_unicode failing_process False (u ''Devanagari'') (u ''India'')\<rparr>
   \<and> map_of (all_targets basic_unicode failing_process False (u ''Devanagari'') (u ''India''))
        (u ''Tamil'') = Some (u ''India'')
   \<and> clean_transliteration basic_unicode (u ''India'') (u ''Tamil'') = Inr (u ''india'')
   \<and> u ''India'' \<noteq> u ''india''"
proof -
  have "map_of (all_targets basic_unicode failing_process False (u ''Devanagari'') (u ''India''))
      (u ''Tamil'') = Some (target_entry basic_unicode failing_process False (u ''Devanagari'')
        (u ''India'') (u ''Tamil''))"
    by (simp add: all_targets_entries) (simp add: target_scripts_def u_def)
  moreover have "target_entry basic_unicode failing_process False (u ''Devanagari'')
        (u ''India'') (u ''Tamil'') = u ''India''"
    by (simp add: target_entry_def primary_conversion_def failing_process_def then_clean_def)
  moreover have "u ''India'' \<noteq> u ''india''" by (simp add: u_def)
  ultimately show ?thesis by (simp add: image_India_hi clean_India_tamil)
qed

text \<open>
  C3, amended. Every target holds the value computed for its script code. The result of a
  successful primary conversion (the untouched text of the English-to-ITRANS case
  included), and otherwise the result of a successful conversion from ITRANS, is stored as
  the output of \<^verbatim>\<open>clean_transliteration\<close>; when both conversions raise, the extracted
  text is stored as it is, without passing through the normalizer.
\<close>

theorem stored_entries_normalized_or_raw:
  "list_all (\<lambda>(script_name, script_code).
      map_of (all_targets U process english src text) script_name =
        Some (target_entry U process english src text script_code)) target_scripts
   \<and> (primary_conversion process english src text code = Inr t1
        \<longrightarrow> clean_transliteration U t1 code
              = Inr (target_entry U process english src text code))
   \<and> (primary_conversion process english src text code = Inl e1
        \<and> process ITRANS code text = Inr t2
        \<longrightarrow> clean_transliteration U t2 code
              = Inr (target_entry U process english src text code))
   \<and> (primary_conversion process english src text code = Inl e1
        \<and> process ITRANS code text = Inl e2
        \<longrightarrow> target_entry U process english src text code = text)"
proof -
  have "clean_transliteration U t1 code = Inr (target_entry U process english src text code)"
    if "primary_conversion process english src text code = Inr t1"
    using that clean_transliteration_total [of U t1 code]
    by (auto simp: target_entry_def then_clean_def)
  moreover have "clean_transliteration U t2 code
      = Inr (target_entry U process english src text code)"
    if "primary_conversion process english src text code = Inl e1"
      "process ITRANS code text = Inr t2"
    using that clean_transliteration_total [of U t2 code]
    by (auto simp: target_entry_def then_clean_def)
  moreover have "target_entry U process english src text code = text"
    if "primary_conversion process english src text code = Inl e1"
      "process ITRANS code text = Inl e2"
    using that by (simp add: target_entry_def then_clean_def)
  ultimately show ?thesis
    using map_of_all_targets [of U process english src "text"] by blast
qed

theorem stored_entries_normalized_or_raw_witness:
  "primary_conversion echo_process False (u ''Devanagari'') (u ''India'') (u ''Tamil'')
     = Inr (u ''India'')
   \<and> target_entry basic_unicode echo_process False (u ''Devanagari'') (u ''India'') (u ''Tamil'')
     = u ''india''
   \<and> primary_conversion itrans_only_process False (u ''Devanagari'') (u ''India'') (u ''Tamil'')
     = Inl ConversionError
   \<and> itrans_only_process ITRANS (u ''Tamil'') (u ''India'') = Inr (u ''India'')
   \<and> target_entry basic_unicode itrans_only_process False (u ''Devanagari'') (u ''India'')
       (u ''Tamil'') = u ''india''
   \<and> primary_conversion failing_process False (u ''Devanagari'') (u ''India'') (u ''Tamil'')
     = Inl ConversionError
   \<and> failing_process ITRANS (u ''Tamil'') (u ''India'') = Inl ConversionError
   \<and> target_entry basic_unicode failing_process False (u ''Devanagari'') (u ''India'')
       (u ''Tamil'') = u ''India''"
proof -
  have h1: "primary_conversion echo_process False (u ''Devanagari'') (u ''India'') (u ''Tamil'')
     = Inr (u ''India'')"
    by (simp add: primary_conversion_def echo_process_def)
  have h2: "primary_conversion itrans_only_process False (u ''Devanagari'') (u ''India'')
      (u ''Tamil'') = Inl ConversionError"
    by (simp add: primary_conversion_def itrans_only_process_def ITRANS_def u_def)
  have h3: "itrans_only_process ITRANS (u ''Tamil'') (u ''India'') = Inr (u ''India'')"
    by (simp add: itrans_only_process_def)
  have h4: "primary_conversion failing_process False (u ''Devanagari'') (u ''India'') (u ''Tamil'')
     = Inl ConversionError"
    by (simp add: primary_conversion_def failing_process_def)
  have h5: "failing_process ITRANS (u ''Tamil'') (u ''India'') = Inl ConversionError"
    by (simp add: failing_process_def)
  show ?thesis
    using h1 h2 h3 h4 h5 clean_India_tamil
      stored_entries_normalized_or_raw [of basic_unicode echo_process False "u ''Devanagari''"
        "u ''India''" "u ''Tamil''" "u ''India''"]
      stored_entries_normalized_or_raw [of basic_unicode itrans_only_process False
        "u ''Devanagari''" "u ''India''" "u ''Tamil''" _ ConversionError "u ''India''"]
      stored_entries_normalized_or_raw [of basic_unicode failing_process False
        "u ''Devanagari''" "u ''India''" "u ''Tamil''" _ ConversionError _ ConversionError]
    by simp
qed

section \<open>Source-script resolution (C4)\<close>

text \<open>
  C4 as stated fails for \<^verbatim>\<open>transliterate_single\<close>: a detected language \<^verbatim>\<open>fr\<close>, absent
  from the table, with the declared source \<^verbatim>\<open>hi\<close>, resolves to Devanagari, the default
  of that view's lookup.
\<close>

theorem single_source_default_counterexample:
  "single_source_script (actual_source_language (u ''fr'') (u ''hi'')) \<noteq> u ''ITRANS''"
  by (simp add: single_source_script_def actual_source_language_def dict_get_def
      language_to_script_def u_def)

text \<open>
  C4, amended. In \<^verbatim>\<open>transliterate_image\<close> a detected tag that is \<^verbatim>\<open>en\<close>, empty,
  \<^verbatim>\<open>unknown\<close> or absent from the table resolves to ITRANS, and a mapped tag to its table
  entry. In \<^verbatim>\<open>transliterate_single\<close> the source language is \<^verbatim>\<open>en\<close> when the detector
  or the caller says \<^verbatim>\<open>en\<close>, otherwise the detected tag, or the caller's tag when the
  detected one is \<^verbatim>\<open>unknown\<close>; a mapped tag resolves to its table entry and an unmapped
  one to Devanagari.
\<close>

theorem source_script_resolution:
  "(image_is_english d1 \<longrightarrow> image_source_script d1 = u ''ITRANS'')
   \<and> (map_of language_to_script d2 = None \<longrightarrow> image_source_script d2 = u ''ITRANS'')
   \<and> (map_of language_to_script d3 = Some s3 \<longrightarrow> image_source_script d3 = s3)
   \<and> (det4 = u ''en'' \<or> user4 = u ''en'' \<longrightarrow> actual_source_language det4 user4 = u ''en'')
   \<and> (det5 \<noteq> u ''en'' \<and> user5 \<noteq> u ''en'' \<and> det5 \<noteq> u ''unknown''
        \<longrightarrow> actual_source_language det5 user5 = det5)
   \<and> (user6 \<noteq> u ''en'' \<longrightarrow> actual_source_language (u ''unknown'') user6 = user6)
   \<and> (map_of language_to_script a7 = Some s7 \<longrightarrow> single_source_script a7 = s7)
   \<and> (map_of language_to_script a8 = None \<longrightarrow> single_source_script a8 = u ''Devanagari'')"
proof -
  have en: "map_of language_to_script (u ''en'') = Some (u ''ITRANS'')"
    by (simp add: language_to_script_def u_def)
  have empty: "map_of language_to_script [] = None"
    by (simp add: language_to_script_def u_def)
  have unknown: "map_of language_to_script (u ''unknown'') = None"
    by (simp add: language_to_script_def u_def)
  have "map_of language_to_script d3 = Some s3 \<Longrightarrow> image_source_script d3 = s3"
    using en empty unknown
    by (auto simp: image_source_script_def image_is_english_def dict_get_def)
  then show ?thesis
    by (auto simp: image_source_script_def dict_get_def actual_source_language_def
        single_source_script_def u_def)
qed

theorem source_script_resolution_witness:
  "image_is_english (u ''unknown'') \<and> image_source_script (u ''unknown'') = u ''ITRANS''
   \<and> map_of language_to_script (u ''fr'') = None \<and> image_source_script (u ''fr'') = u ''ITRANS''
   \<and> map_of language_to_script (u ''ta'') = Some (u ''Tamil'')
   \<and> image_source_script (u ''ta'') = u ''Tamil''
   \<and> actual_source_language (u ''en'') (u ''hi'') = u ''en''
   \<and> actual_source_language (u ''ta'') (u ''hi'') = u ''ta''
   \<and> actual_source_language (u ''unknown'') (u ''hi'') = u ''hi''
   \<and> single_source_script (u ''ta'') = u ''Tamil''
   \<and> single_source_script (u ''fr'') = u ''Devanagari''"
proof -
  have h1: "image_is_english (u ''unknown'')"
    by (simp add: image_is_english_def)
  have h2: "map_of language_to_script (u ''fr'') = None"
    by (simp add: language_to_script_def u_def)
  have h3: "map_of language_to_script (u ''ta'') = Some (u ''Tamil'')"
    by (simp add: language_to_script_def u_def)
  have h5: "u ''ta'' \<noteq> u ''en'' \<and> u ''hi'' \<noteq> u ''en'' \<and> u ''ta'' \<noteq> u ''unknown''"
    by (simp add: u_def)
  have h6: "u ''hi'' \<noteq> u ''en''"
    by (simp add: u_def)
  show ?thesis
    using h1 h2 h3 h5 h6
      source_script_resolution [of "u ''unknown''" "u ''fr''" "u ''ta''" "u ''Tamil''"
        "u ''en''" "u ''hi''" "u ''ta''" "u ''hi''" "u ''hi''" "u ''ta''" "u ''Tamil''" "u ''fr''"]
    by blast
qed

section \<open>The target entries (C5)\<close>

text \<open>
  C5 as stated fails in the count: \<^verbatim>\<open>target_scripts\<close> declares eleven names
  (Devanagari appears under two), and the mapping returned has eleven entries.
\<close>

theorem all_targets_not_ten_counterexample:
  "transliterate_image basic_unicode detect_en failing_process (u ''hello'') =
     Inr \<lparr>original_text = u ''hello'', detected_language = u ''en'',
          transliterations =
            all_targets basic_unicode failing_process True (u ''ITRANS'') (u ''hello'')\<rparr>
   \<and> length (all_targets basic_unicode failing_process True (u ''ITRANS'') (u ''hello'')) = 11"
proof -
  have "length (all_targets basic_unicode failing_process True (u ''ITRANS'') (u ''hello'')) = 11"
    by (simp add: all_targets_entries) (simp add: target_scripts_def)
  then show ?thesis by (simp add: image_hello)
qed

text \<open>
  C5, amended. For every non-empty extracted text, whatever the detector and the converter
  do, both views return a response whose all-targets mapping has exactly the eleven fixed
  names as keys, in declaration order; \<^verbatim>\<open>Roman\<close> maps to ITRANS.
\<close>

theorem all_targets_eleven_entries:
  assumes "py_join (u '' '') (py_split ocr_text) \<noteq> []"
  shows "(\<exists>r. transliterate_image U detect process ocr_text = Inr r
             \<and> map fst (transliterations r) = target_names)
         \<and> (\<exists>r. transliterate_single U detect process source_language target_lang ocr_text = Inr r
             \<and> map fst (all_transliterations r) = target_names)
         \<and> length target_names = 11
         \<and> map_of target_scripts (u ''Roman'') = Some (u ''ITRANS'')"
proof -
  have names: "map fst target_scripts = target_names"
    by (simp add: target_scripts_def target_names_def)
  have roman: "map_of target_scripts (u ''Roman'') = Some (u ''ITRANS'')"
    by (simp add: target_scripts_def u_def)
  have len: "length target_names = 11"
    by (simp add: target_names_def)
  show ?thesis
    using assms
    by (simp add: transliterate_image_def transliterate_single_def Let_def all_targets_keys
        names roman len)
qed

theorem all_targets_eleven_entries_witness:
  "py_join (u '' '') (py_split (u ''hello'')) \<noteq> []
   \<and> (\<exists>r. transliterate_image basic_unicode detect_en failing_process (u ''hello'') = Inr r
           \<and> map fst (transliterations r) = target_names)
   \<and> (\<exists>r. transliterate_single basic_unicode detect_en failing_process (u ''hi'') (u ''en'')
             (u ''hello'') = Inr r
           \<and> map fst (all_transliterations r) = target_names)"
proof -
  have h: "py_join (u '' '') (py_split (u ''hello'')) \<noteq> []"
    by (simp add: normalize_hello hello_nonempty)
  from all_targets_eleven_entries
    [OF h, of basic_unicode detect_en failing_process "u ''hi''" "u ''en''"] h
  show ?thesis by blast
qed

section \<open>Total failure of the converter (C6)\<close>

text \<open>
  C6 as stated fails when the source is English. With a converter that always raises and
  the text \<^verbatim>\<open>hello\<close> detected as English, the Roman entry is the normalized \<^verbatim>\<open>Hello\<close>,
  not the original text, and the single-target result for the target \<^verbatim>\<open>en\<close> is the text
  itself, without the failure marker: neither path calls the converter.
\<close>

theorem total_failure_english_counterexample:
  "transliterate_single basic_unicode detect_en failing_process (u ''hi'') (u ''en'') (u ''hello'') =
     Inr \<lparr>single_original_text = u ''hello'', single_detected_language = u ''en'',
          target_language = u ''en'', transliterated_text = u ''hello'',
          all_transliterations =
            all_targets basic_unicode failing_process True (u ''ITRANS'') (u ''hello'')\<rparr>
   \<and> \<not> sublist (u ''Transliteration failed'') (u ''hello'')
   \<and> map_of (all_targets basic_unicode failing_process True (u ''ITRANS'') (u ''hello''))
        (u ''Roman'') = Some (u ''Hello'')
   \<and> u ''Hello'' \<noteq> u ''hello''"
proof -
  have "\<not> sublist (u ''Transliteration failed'') (u ''hello'')"
    by (simp add: u_def sublist_Cons_right)
  moreover have "u ''Hello'' \<noteq> u ''hello''" by (simp add: u_def)
  ultimately show ?thesis
    by (simp add: single_hello roman_entry target_entry_english_roman [OF clean_hello_roman])
qed

text \<open>
  C6, amended. If the converter raises on every call: for a source that is not English the
  all-targets mapping holds the original extracted text under every name; for an English
  source it does so under every name but \<^verbatim>\<open>Roman\<close>, which holds the normalized text.
  The single-target result is the message \<^verbatim>\<open>[Transliteration failed: ... Original: \<close>
  followed by the first 50 characters of the text and \<^verbatim>\<open>...]\<close>, unless the source is
  English and the target ITRANS, where it is the text itself. All results are values: no
  exception leaves either computation.
\<close>

theorem total_failure_substitution:
  assumes fails: "\<forall>source target s. \<exists>e. process source target s = Inl e"
  shows "all_targets U process False src text
           = map (\<lambda>(script_name, script_code). (script_name, text)) target_scripts
     \<and> (\<exists>y. clean_transliteration U text (u ''ITRANS'') = Inr y
           \<and> all_targets U process True src text
               = map (\<lambda>(script_name, script_code).
                        (script_name, if script_code = u ''ITRANS'' then y else text))
                   target_scripts)
     \<and> (actual \<noteq> u ''en'' \<or> target_script \<noteq> u ''ITRANS''
          \<longrightarrow> single_transliteration U process actual src target_script text
                = failure_message text)
     \<and> single_transliteration U process (u ''en'') src (u ''ITRANS'') text = text
     \<and> failure_message text
          = u ''[Transliteration failed: OCR output appears to be garbled. Original: ''
              @ take 50 text @ u ''...]''
     \<and> sublist (u ''Transliteration failed'') (failure_message text)"
proof -
  have fallback: "then_clean U (process a b c) d = Inl (projl (process a b c))" for a b c d
    using fails by (metis then_clean_Inl sum.sel(1))
  have raw: "target_entry U process False src text code = text" for code
    by (simp add: target_entry_def primary_conversion_def fallback)
  have not_roman: "code \<noteq> u ''ITRANS'' \<Longrightarrow> target_entry U process True src text code = text"
    for code
    by (simp add: target_entry_def primary_conversion_def fallback ITRANS_def)
  obtain y where y: "clean_transliteration U text (u ''ITRANS'') = Inr y"
    using clean_transliteration_total by blast
  have roman: "target_entry U process True src text (u ''ITRANS'') = y"
    by (rule target_entry_english_roman [OF y])
  have "all_targets U process True src text
      = map (\<lambda>(script_name, script_code).
               (script_name, if script_code = u ''ITRANS'' then y else text)) target_scripts"
    unfolding all_targets_entries
    by (rule map_cong) (auto simp: roman not_roman)
  moreover have "all_targets U process False src text
      = map (\<lambda>(script_name, script_code). (script_name, text)) target_scripts"
    by (simp add: all_targets_entries raw)
  moreover have "single_transliteration U process actual src target_script text
      = failure_message text" if "actual \<noteq> u ''en'' \<or> target_script \<noteq> u ''ITRANS''"
    using that by (auto simp: single_transliteration_def fallback ITRANS_def)
  moreover have "single_transliteration U process (u ''en'') src (u ''ITRANS'') text = text"
    by (simp add: single_transliteration_def ITRANS_def)
  ultimately show ?thesis
    using y failure_message_marked [of "text"] by (simp add: failure_message_def)
qed

theorem total_failure_substitution_witness:
  "(\<forall>source target s. \<exists>e. failing_process source target s = Inl e)
   \<and> all_targets basic_unicode failing_process False (u ''Devanagari'') (u ''hello'')
       = map (\<lambda>(script_name, script_code). (script_name, u ''hello'')) target_scripts
   \<and> u ''hi'' \<noteq> u ''en''
   \<and> single_transliteration basic_unicode failing_process (u ''hi'') (u ''Devanagari'')
        (u ''Tamil'') (u ''hello'')
       = u ''[Transliteration failed: OCR output appears to be garbled. Original: hello...]''"
proof -
  have h: "\<forall>source target s. \<exists>e. failing_process source target s = Inl e"
    by (simp add: failing_process_def)
  have n: "u ''hi'' \<noteq> u ''en''"
    by (simp add: u_def)
  have m: "failure_message (u ''hello'')
      = u ''[Transliteration failed: OCR output appears to be garbled. Original: hello...]''"
    by (simp add: failure_message_def u_def)
  show ?thesis
    using h n m
      total_failure_substitution [OF h, of basic_unicode "u ''Devanagari''" "u ''hello''"
        "u ''hi''" "u ''Tamil''"]
    by simp
qed

section \<open>Script classification (C1)\<close>

text \<open>
  C1 asks that the Indic branch of \<^verbatim>\<open>clean_transliteration\<close> be taken exactly when some
  character lies in one of the eight ranges. The test of the code names five ranges only
  (Bengali, Gurmukhi and Malayalam are missing), whereas \<^verbatim>\<open>_clean_indian_script\<close>, the
  branch it guards, knows all eight. On the text \<^verbatim>\<open>AB\<close>, space, BENGALI LETTER KA
  (U+0995) the code takes the non-Indic branch and lower-cases the \<^verbatim>\<open>A\<close>; the Indic
  branch would leave the text as it is, as it does for DEVANAGARI LETTER KA (U+0915).
  (No step of these runs asks whether the Bengali letter is cased or alphanumeric: the
  \<^verbatim>\<open>\b\<close> tests concern the two capitals, which are next to each other.)
\<close>

theorem bengali_text_takes_latin_branch:
  "indian_scripts 0x995
   \<and> \<not> is_indian_script (u ''AB '' @ [0x995])
   \<and> clean_transliteration basic_unicode (u ''AB '' @ [0x995]) (u ''Bengali'')
       = Inr (u ''aB '' @ [0x995])
   \<and> clean_indian_script basic_unicode (u ''AB '' @ [0x995]) = u ''AB '' @ [0x995]
   \<and> is_indian_script (u ''AB '' @ [0x915])
   \<and> clean_transliteration basic_unicode (u ''AB '' @ [0x915]) (u ''Bengali'')
       = Inr (u ''AB '' @ [0x915])"
  by (simp add: clean_eval)

section \<open>The mixed-script step is never reached (C7)\<close>

text \<open>
  C7. Whenever the non-Indic branch is taken, the condition of the English-to-Indic step
  (a capital letter together with a Devanagari, Telugu or Tamil character) is false on the
  text that reaches it, so the step returns its input and the result is the one computed
  without the step: the word corrections add ASCII characters only, and the three ranges
  are among the five that choose the Indic branch.
\<close>

theorem mixed_script_step_unreachable:
  assumes "\<not> is_indian_script text"
  shows "\<not> (has_english_caps U (apply_word_corrections U text)
            \<and> has_indian_script (apply_word_corrections U text))
     \<and> apply_english_to_indian U (apply_word_corrections U text)
         = apply_word_corrections U text
     \<and> clean_transliteration U text t =
         (if text = [] then Inr text
          else case (if is_roman_target t
                     then format_for_english U
                            (apply_character_replacements (apply_word_corrections U text))
                     else Inr (apply_character_replacements (apply_word_corrections U text))) of
                 Inl e \<Rightarrow> Inl e
               | Inr cleaned_text \<Rightarrow> Inr (normalize_spaces cleaned_text))"
proof -
  have "\<not> has_indian_script (apply_word_corrections U text)"
    using assms word_corrections_keep_branch has_indian_script_routes by blast
  then have "apply_english_to_indian U (apply_word_corrections U text)
      = apply_word_corrections U text"
    by (simp add: apply_english_to_indian_def)
  then show ?thesis
    using assms \<open>\<not> has_indian_script (apply_word_corrections U text)\<close>
    by (simp add: clean_transliteration_def clean_non_indian_def Let_def)
qed

theorem mixed_script_step_unreachable_witness:
  "\<not> is_indian_script (u ''dIpAvalI'')
   \<and> has_english_caps basic_unicode (apply_word_corrections basic_unicode (u ''dIpAvalI''))
   \<and> \<not> has_indian_script (apply_word_corrections basic_unicode (u ''dIpAvalI''))
   \<and> apply_english_to_indian basic_unicode (apply_word_corrections basic_unicode (u ''dIpAvalI''))
       = u ''Deepavali''"
proof -
  have h: "\<not> is_indian_script (u ''dIpAvalI'')"
    by (simp add: clean_eval)
  have c: "has_english_caps basic_unicode (u ''Deepavali'')"
    by (simp add: clean_eval)
  show ?thesis
    using h c wc_dipavali mixed_script_step_unreachable [OF h, of basic_unicode] by simp
qed

section \<open>Capitals next to Indic characters (C8)\<close>

text \<open>
  C8 asks that the output of \<^verbatim>\<open>_clean_indian_script\<close> have no capital Latin letter next
  to an Indic character and that Indic characters be unchanged. The second substitution
  names group 2, which is the Indic character again, where the capital is group 3: on
  DEVANAGARI LETTER KA followed by \<^verbatim>\<open>AB\<close> the code returns KA, KA, \<^verbatim>\<open>B\<close>. The capital
  \<^verbatim>\<open>A\<close> is deleted, not lower-cased, the Indic character is doubled, and the capital
  \<^verbatim>\<open>B\<close> now follows an Indic character.
\<close>

theorem capital_after_indic_not_lowercased:
  "clean_indian_script basic_unicode [0x915, 0x41, 0x42] = [0x915, 0x915, 0x42]
   \<and> indian_scripts 0x915 \<and> is_AZ 0x42
   \<and> clean_indian_script basic_unicode [0x915, 0x41] = [0x915, 0x915]"
  by (simp add: clean_eval)

section \<open>Word corrections (C9)\<close>

text \<open>
  C9. On the non-Indic branch \<^verbatim>\<open>clean_transliteration\<close> runs the word corrections first,
  one step for each key of the table in order, and computes its result from their output.
  A step looks the key up without regard to case and replaces its exact occurrences only:
  where lower-casing keeps the occurrences of the key the step is the exact replacement,
  where the key does not occur exactly the text is unchanged (so the loop leaves a text
  without exact keys alone), and a first exact occurrence is replaced by the canonical
  form with the text before it untouched. The input \<^verbatim>\<open>dIpAvalI\<close> with a Roman target
  normalizes to \<^verbatim>\<open>Deepavali\<close>; in \<^verbatim>\<open>a dIpAvalI b DIPAVALI\<close> the exact occurrence is
  corrected and the other is not.
\<close>

theorem word_correction_asymmetry:
  "(\<not> is_indian_script text \<longrightarrow>
      clean_transliteration U text t =
        (if text = [] then Inr text
         else case (if is_roman_target t
                    then format_for_english U
                           (apply_character_replacements
                             (foldl (word_correction_step U) text word_corrections))
                    else Inr (apply_character_replacements
                             (foldl (word_correction_step U) text word_corrections))) of
                Inl e \<Rightarrow> Inl e
              | Inr cleaned_text \<Rightarrow> Inr (normalize_spaces cleaned_text)))
   \<and> ((sublist k s1 \<longrightarrow> sublist (py_lower U k) (py_lower U s1))
        \<longrightarrow> word_correction_step U s1 (k, c) = py_replace s1 k c)
   \<and> (\<not> sublist k s2 \<longrightarrow> word_correction_step U s2 (k, c) = s2)
   \<and> (k \<noteq> [] \<and> \<not> sublist k (a @ butlast k)
        \<longrightarrow> py_replace (a @ k @ b) k c = a @ c @ py_replace b k c)
   \<and> (list_all (\<lambda>kv. \<not> sublist (fst kv) s3) word_corrections
        \<longrightarrow> foldl (word_correction_step U) s3 word_corrections = s3)
   \<and> (py_lower U = map f
        \<longrightarrow> foldl (word_correction_step U) s4 word_corrections
            = foldl (\<lambda>t kv. py_replace t (fst kv) (snd kv)) s4 word_corrections)
   \<and> clean_transliteration basic_unicode (u ''dIpAvalI'') (u ''ITRANS'') = Inr (u ''Deepavali'')
   \<and> clean_transliteration basic_unicode (u ''dIpAvalI'') (u ''roman'') = Inr (u ''Deepavali'')
   \<and> clean_transliteration basic_unicode (u ''a dIpAvalI b DIPAVALI'') (u ''Tamil'')
       = Inr (u ''a Deepavali b DiPaVaLi'')"
proof -
  have "clean_transliteration basic_unicode (u ''dIpAvalI'') (u ''ITRANS'') = Inr (u ''Deepavali'')"
    by (simp add: clean_eval)
  moreover
  have "clean_transliteration basic_unicode (u ''dIpAvalI'') (u ''roman'') = Inr (u ''Deepavali'')"
    by (simp add: clean_eval)
  moreover
  have "list_all (\<lambda>kv. \<not> sublist (fst kv) s3) word_corrections
      \<Longrightarrow> foldl (word_correction_step U) s3 word_corrections = s3"
    by (simp add: list_all_iff foldl_word_corrections_absent)
  moreover
  have "\<not> sublist k s2 \<Longrightarrow> word_correction_step U s2 (k, c) = s2"
    by (simp add: word_correction_step_def py_replace_absent)
  ultimately show ?thesis
    using non_indian_branch_pipeline [of "text" U t] word_correction_step_exact [of k s1 U c]
      py_replace_first [of k a b c] foldl_word_corrections_exact [of U f s4 word_corrections]
      clean_mixed_tamil
    by blast
qed

theorem word_correction_asymmetry_witness:
  "\<not> is_indian_script (u ''a dIpAvalI b DIPAVALI'')
   \<and> clean_transliteration basic_unicode (u ''a dIpAvalI b DIPAVALI'') (u ''Tamil'')
       = Inr (normalize_spaces (apply_character_replacements
           (foldl (word_correction_step basic_unicode) (u ''a dIpAvalI b DIPAVALI'')
              word_corrections)))
   \<and> sublist (py_lower basic_unicode (u ''dIpAvalI''))
         (py_lower basic_unicode (u ''a dIpAvalI b DIPAVALI''))
   \<and> word_correction_step basic_unicode (u ''a dIpAvalI b DIPAVALI'')
         (u ''dIpAvalI'', u ''Deepavali'') = u ''a Deepavali b DIPAVALI''
   \<and> sublist (py_lower basic_unicode (u ''dIpAvalI'')) (py_lower basic_unicode (u ''DIPAVALI''))
   \<and> \<not> sublist (u ''dIpAvalI'') (u ''DIPAVALI'')
   \<and> word_correction_step basic_unicode (u ''DIPAVALI'') (u ''dIpAvalI'', u ''Deepavali'')
       = u ''DIPAVALI''
   \<and> u ''dIpAvalI'' \<noteq> [] \<and> \<not> sublist (u ''dIpAvalI'') (u ''a '' @ butlast (u ''dIpAvalI''))
   \<and> py_replace (u ''a '' @ u ''dIpAvalI'' @ u '' b DIPAVALI'') (u ''dIpAvalI'') (u ''Deepavali'')
       = u ''a Deepavali b DIPAVALI''
   \<and> list_all (\<lambda>kv. \<not> sublist (fst kv) (u ''DIPAVALI'')) word_corrections
   \<and> foldl (word_correction_step basic_unicode) (u ''DIPAVALI'') word_corrections = u ''DIPAVALI''
   \<and> py_lower basic_unicode = map ascii_lower_cp
   \<and> foldl (word_correction_step basic_unicode) (u ''a dIpAvalI b DIPAVALI'') word_corrections
       = foldl (\<lambda>t kv. py_replace t (fst kv) (snd kv)) (u ''a dIpAvalI b DIPAVALI'')
           word_corrections"
proof -
  note inst = word_correction_asymmetry [of "u ''a dIpAvalI b DIPAVALI''" basic_unicode "u ''Tamil''"
      "u ''dIpAvalI''" "u ''a dIpAvalI b DIPAVALI''" "u ''Deepavali''" "u ''DIPAVALI''"
      "u ''a ''" "u '' b DIPAVALI''" "u ''DIPAVALI''" ascii_lower_cp
      "u ''a dIpAvalI b DIPAVALI''"]
  have h1: "\<not> is_indian_script (u ''a dIpAvalI b DIPAVALI'')"
    by (simp add: clean_eval)
  have n1: "u ''a dIpAvalI b DIPAVALI'' \<noteq> []" "\<not> is_roman_target (u ''Tamil'')"
    by (simp_all add: u_def is_roman_target_def)
  have h2: "sublist (py_lower basic_unicode (u ''dIpAvalI''))
      (py_lower basic_unicode (u ''a dIpAvalI b DIPAVALI''))"
    by (simp add: str_eval)
  have h3: "\<not> sublist (u ''dIpAvalI'') (u ''DIPAVALI'')"
    by (simp add: str_eval)
  have h3': "sublist (py_lower basic_unicode (u ''dIpAvalI''))
      (py_lower basic_unicode (u ''DIPAVALI''))"
    by (simp add: str_eval)
  have h4: "u ''dIpAvalI'' \<noteq> [] \<and> \<not> sublist (u ''dIpAvalI'') (u ''a '' @ butlast (u ''dIpAvalI''))"
    by (simp add: str_eval)
  have h5: "list_all (\<lambda>kv. \<not> sublist (fst kv) (u ''DIPAVALI'')) word_corrections"
    by (simp add: word_corrections_def str_eval)
  have h6: "py_lower basic_unicode = map ascii_lower_cp"
    by (simp add: basic_unicode_def)
  have e1: "py_replace (u ''a dIpAvalI b DIPAVALI'') (u ''dIpAvalI'') (u ''Deepavali'')
      = u ''a Deepavali b DIPAVALI''"
    by (simp add: str_eval)
  have e2: "u ''a '' @ u ''Deepavali'' @ py_replace (u '' b DIPAVALI'') (u ''dIpAvalI'')
      (u ''Deepavali'') = u ''a Deepavali b DIPAVALI''"
    by (simp add: str_eval)
  have w1: "clean_transliteration basic_unicode (u ''a dIpAvalI b DIPAVALI'') (u ''Tamil'')
       = Inr (normalize_spaces (apply_character_replacements
           (foldl (word_correction_step basic_unicode) (u ''a dIpAvalI b DIPAVALI'')
              word_corrections)))"
    using inst h1 n1 by simp
  have w2: "word_correction_step basic_unicode (u ''a dIpAvalI b DIPAVALI'')
         (u ''dIpAvalI'', u ''Deepavali'') = u ''a Deepavali b DIPAVALI''"
    using inst h2 e1 by simp
  have w3: "word_correction_step basic_unicode (u ''DIPAVALI'') (u ''dIpAvalI'', u ''Deepavali'')
       = u ''DIPAVALI''"
    using inst h3 by blast
  have "py_replace (u ''a '' @ u ''dIpAvalI'' @ u '' b DIPAVALI'') (u ''dIpAvalI'') (u ''Deepavali'')
       = u ''a '' @ u ''Deepavali'' @ py_replace (u '' b DIPAVALI'') (u ''dIpAvalI'')
      (u ''Deepavali'')"
    using inst h4 by blast
  then have w4: "py_replace (u ''a '' @ u ''dIpAvalI'' @ u '' b DIPAVALI'') (u ''dIpAvalI'')
      (u ''Deepavali'') = u ''a Deepavali b DIPAVALI''"
    by (simp only: e2)
  have w5: "foldl (word_correction_step basic_unicode) (u ''DIPAVALI'') word_corrections
      = u ''DIPAVALI''"
    using inst h5 by blast
  have w6: "foldl (word_correction_step basic_unicode) (u ''a dIpAvalI b DIPAVALI'')
      word_corrections
       = foldl (\<lambda>t kv. py_replace t (fst kv) (snd kv)) (u ''a dIpAvalI b DIPAVALI'')
           word_corrections"
    using inst h6 by blast
  show ?thesis
    using h1 h2 h3 h3' h4 h5 h6 w1 w2 w3 w4 w5 w6 by blast
qed

section \<open>Running the normalizer twice (C10)\<close>




end
